theory Spec2Isabelle
  imports Main "HOL-Library.Word" "HOL-Library.Signed_Division" "HOL-Library.AList"
begin

section \<open>Data model\<close>

text \<open>
  The controller of the Spectrum Scale CSI plugin: \<open>CreateVolume\<close> and \<open>DeleteVolume\<close>
  (controller server), and the helpers of \<open>csiplugin/gpfs_util.go\<close>. Go's \<open>int64\<close> and
  \<open>int\<close> (64-bit) are \<open>64 word\<close>; comparisons read them with \<open>sint\<close>.
\<close>

type_synonym int64 = "64 word"

text \<open>\<open>type scaleVolume struct\<close> (gpfs_util.go, lines 31-38).\<close>

record scaleVolume =
  VolName :: string
  VolID :: string
  VolSize :: int64
  VolIscsi :: bool
  VolIscsiVid :: string
  VolBackendFs :: string

text \<open>The zero value \<open>&scaleVolume{}\<close>.\<close>

definition zeroScaleVolume :: scaleVolume where
  "zeroScaleVolume =
     \<lparr>VolName = [], VolID = [], VolSize = 0, VolIscsi = False, VolIscsiVid = [], VolBackendFs = []\<rparr>"

subsection \<open>Errors and status codes\<close>

datatype errno = ENOENT | EACCES | ENOSPC | EIO

fun errnoString :: "errno \<Rightarrow> string" where
  "errnoString ENOENT = ''no such file or directory''"
| "errnoString EACCES = ''permission denied''"
| "errnoString ENOSPC = ''no space left on device''"
| "errnoString EIO = ''input/output error''"

text \<open>
  Go error values. \<open>ErrNotExist\<close> is the sentinel variable \<open>os.ErrNotExist\<close>;
  \<open>PathError op path e\<close> is the \<open>*os.PathError\<close> that \<open>os.Create\<close>, \<open>os.Open\<close> and
  \<open>os.Remove\<close> return on every failure (the operation, the path, the system error);
  \<open>Errorf\<close> is a value built by \<open>fmt.Errorf\<close>; \<open>ExternalError\<close> is an error returned by
  a collaborator outside this package (the administrative layer, the iSCSI layer, the driver,
  the JSON decoder). Go's \<open>==\<close> on errors is equality of these values: a \<open>PathError\<close> is
  never equal to the sentinel.
\<close>

datatype goerror =
    ErrNotExist
  | PathError string string errno
  | Errorf string
  | ExternalError string

fun errorString :: "goerror \<Rightarrow> string" where
  "errorString ErrNotExist = ''file does not exist''"
| "errorString (PathError op p e) = op @ '' '' @ p @ '': '' @ errnoString e"
| "errorString (Errorf s) = s"
| "errorString (ExternalError s) = s"

datatype code = OK | InvalidArgument | AlreadyExists | Internal | Unimplemented

type_synonym status = "code \<times> string"

definition status_Error :: "code \<Rightarrow> string \<Rightarrow> status" where
  "status_Error c msg = (c, msg)"

subsection \<open>Requests and responses\<close>

datatype accessMode =
    UNKNOWN | SINGLE_NODE_WRITER | SINGLE_NODE_READER_ONLY
  | MULTI_NODE_READER_ONLY | MULTI_NODE_SINGLE_WRITER | MULTI_NODE_MULTI_WRITER

record capacityRange =
  RequiredBytes :: int64
  LimitBytes :: int64

text \<open>
  \<open>csi.CreateVolumeRequest\<close>. \<open>CapacityRange\<close> is a pointer (\<open>None\<close> is nil).
  \<open>VolumeCapabilities\<close> is a slice: \<open>None\<close> is the nil slice, \<open>Some []\<close> an empty slice
  that is not nil; the source tests it with \<open>== nil\<close>. A capability is kept as its
  access mode, which \<open>CreateVolume\<close> does not read. \<open>Parameters\<close> is a
  \<open>map[string]string\<close>. The request itself is never a nil pointer: the server passes a
  decoded message.
\<close>

record createVolumeRequest =
  Name :: string
  CapacityRange :: "capacityRange option"
  VolumeCapabilities :: "accessMode list option"
  Parameters :: "string \<rightharpoonup> string"

record deleteVolumeRequest =
  VolumeIdReq :: string

text \<open>\<open>csi.Volume\<close>, the payload of \<open>csi.CreateVolumeResponse\<close>.\<close>

record volume =
  VolumeId :: string
  CapacityBytes :: int64
  VolumeContext :: "string \<rightharpoonup> string"

text \<open>The getter \<open>GetRequiredBytes\<close> is nil-safe and reads 0 on a nil range.\<close>

definition GetRequiredBytes :: "capacityRange option \<Rightarrow> int64" where
  "GetRequiredBytes r = (case r of None \<Rightarrow> 0 | Some c \<Rightarrow> RequiredBytes c)"

text \<open>Indexing a Go map: the zero value (the empty string) for an absent key.\<close>

definition mapIndex :: "(string \<rightharpoonup> string) \<Rightarrow> string \<Rightarrow> string" where
  "mapIndex m k = (case m k of None \<Rightarrow> [] | Some v \<Rightarrow> v)"

subsection \<open>Effects: the world the controller acts on\<close>

text \<open>
  Every call that leaves the package is recorded, in the order issued, in \<open>trace\<close>:
  the calls on \<open>ops\<close> (administrative layer) and \<open>iscsiOps\<close>, the UUID generator,
  the file operations of the metadata store, and the two mutations of the global
  \<open>scaleVolumes\<close> map.
\<close>

datatype event =
    CreateFSet string string
  | LinkFSet string string string
  | UnlinkFSet string string
  | DeleteFSet string string
  | IscsiCreateVolume string int64
  | AttachIscsiDevicesToNode string string string
  | IscsiGetDevicePath string string string
  | PickNextRawDevice
  | CreateNSD string string
  | CreateFS string string
  | DeleteFS string
  | DeleteNSD string
  | IscsiDeleteVolume string
  | NewUUID
  | OsCreate string
  | OsWrite string
  | OsOpen string
  | OsRemove string
  | RegistryInsert string
  | RegistryDelete string

text \<open>
  \<open>scaleVolumes\<close> is the package-level \<open>map[string]*scaleVolume\<close>, keyed by volume
  identifier; it is kept as the list of its entries in the order a \<open>range\<close> statement
  visits them (Go leaves that order unspecified, and every theorem below holds for every order).
  \<open>files\<close> is the file system: path to content.
\<close>

record world =
  scaleVolumes :: "(string \<times> scaleVolume) list"
  files :: "string \<rightharpoonup> string"
  trace :: "event list"

definition emit :: "event \<Rightarrow> world \<Rightarrow> world" where
  "emit e w = w\<lparr>trace := trace w @ [e]\<rparr>"

text \<open>The events a call added to the trace.\<close>

definition emitted :: "world \<Rightarrow> world \<Rightarrow> event list" where
  "emitted w w' = drop (length (trace w)) (trace w')"

text \<open>
  A JSON document as \<open>encoding/json\<close> sees one: an object is the list of its members in
  the order written. Values that a field of \<open>scaleVolume\<close> can take are strings, integer
  numbers and booleans; \<open>JNull\<close> is \<open>null\<close>, \<open>JOther\<close> stands for every other value
  (arrays, objects, numbers with a fraction or an exponent).
\<close>

datatype jsonValue = JString string | JNumber int | JBool bool | JNull | JOther

type_synonym jsonObject = "(string \<times> jsonValue) list"

text \<open>The value returned by \<open>iscsiOps.CreateVolume\<close> (fields read by the source).\<close>

record pbVolume =
  Vid :: string
  Iphost :: string
  Iqn :: string
  Lun :: int

text \<open>
  What the collaborators outside the two source files answer. The results of the
  administrative layer \<open>ops\<close>, of \<open>iscsiOps\<close>, of the driver's
  \<open>ValidateControllerServiceRequest(RPC_CREATE_DELETE_VOLUME)\<close>, of \<open>uuid.NewUUID\<close>,
  the faults of the file system, the text of a JSON document (\<open>jsonRender\<close>) and its
  parser (\<open>jsonParse\<close>) in \<open>encoding/json\<close>, \<open>path.Join\<close>, the constant
  \<open>PluginFolder\<close> and the rendering of a request by \<open>%v\<close> are parameters.
  An answer is a function of the arguments of the call; in one run of \<open>CreateVolume\<close>
  or \<open>DeleteVolume\<close> no collaborator is called twice with the same arguments.
\<close>

record env =
  validateControllerServiceRequest :: "goerror option"
  newUUID :: string
  PluginFolder :: string
  path_Join :: "string \<Rightarrow> string \<Rightarrow> string"
  fmtRequest :: "deleteVolumeRequest \<Rightarrow> string"
  opsCreateFSet :: "string \<Rightarrow> string \<Rightarrow> goerror option"
  opsLinkFSet :: "string \<Rightarrow> string \<Rightarrow> string \<Rightarrow> goerror option"
  opsUnlinkFSet :: "string \<Rightarrow> string \<Rightarrow> goerror option"
  opsDeleteFSet :: "string \<Rightarrow> string \<Rightarrow> goerror option"
  opsAttachIscsiDevicesToNode :: "string \<Rightarrow> string \<Rightarrow> string \<Rightarrow> goerror option"
  opsPickNextRawDevice :: "goerror + string"
  opsCreateNSD :: "string \<Rightarrow> string \<Rightarrow> goerror option"
  opsCreateFS :: "string \<Rightarrow> string \<Rightarrow> goerror option"
  opsDeleteFS :: "string \<Rightarrow> goerror option"
  opsDeleteNSD :: "string \<Rightarrow> goerror option"
  iscsiCreateVolume :: "string \<Rightarrow> int64 \<Rightarrow> goerror + pbVolume"
  iscsiGetDevicePath :: "string \<Rightarrow> string \<Rightarrow> string \<Rightarrow> string"
  iscsiDeleteVolume :: "string \<Rightarrow> goerror option"
  osCreateFault :: "string \<Rightarrow> errno option"
  osWriteFault :: "string \<Rightarrow> (errno \<times> nat) option"
  osOpenFault :: "string \<Rightarrow> errno option"
  osRemoveFault :: "string \<Rightarrow> errno option"
  jsonRender :: "jsonObject \<Rightarrow> string"
  jsonParse :: "string \<Rightarrow> goerror + jsonObject"

section \<open>Library functions used by the source\<close>

text \<open>\<open>strings.Split(s, "/")\<close> for a one-character separator: never the empty list.\<close>

fun strings_Split :: "string \<Rightarrow> char \<Rightarrow> string list" where
  "strings_Split [] sep = [[]]"
| "strings_Split (c # cs) sep =
     (if c = sep then [] # strings_Split cs sep
      else (case strings_Split cs sep of
              [] \<Rightarrow> [[c]]
            | x # xs \<Rightarrow> (c # x) # xs))"

text \<open>
  \<open>strconv.ParseBool\<close>: the value and the error. The source discards the error and keeps
  the value, which is \<open>false\<close> on every string outside the two lists.
\<close>

definition strconv_ParseBool :: "string \<Rightarrow> bool \<times> goerror option" where
  "strconv_ParseBool str =
     (if str \<in> set [''1'', ''t'', ''T'', ''TRUE'', ''true'', ''True''] then (True, None)
      else if str \<in> set [''0'', ''f'', ''F'', ''FALSE'', ''false'', ''False''] then (False, None)
      else (False, Some (Errorf (''strconv.ParseBool: parsing '' @ str @ '': invalid syntax''))))"

text \<open>\<open>strconv.Itoa\<close>: decimal digits, with a minus sign below zero.\<close>

fun natDigits :: "nat \<Rightarrow> string" where
  "natDigits n =
     (if n < 10 then [''0123456789'' ! n]
      else natDigits (n div 10) @ [''0123456789'' ! (n mod 10)])"

declare natDigits.simps [simp del]

definition strconv_Itoa :: "int \<Rightarrow> string" where
  "strconv_Itoa i = (if i < 0 then CHR ''-'' # natDigits (nat (- i)) else natDigits (nat i))"

text \<open>
  Go's \<open>/\<close> on \<open>int64\<close> truncates towards zero (the source divides by the constant
  1024 only).
\<close>

definition int64_quo :: "int64 \<Rightarrow> int64 \<Rightarrow> int64" where
  "int64_quo a b = word_of_int (sint a sdiv sint b)"

text \<open>
  \<open>encoding/json\<close> on \<open>scaleVolume\<close>, as the struct tags of lines 31-38 direct it.
  Encoding writes the six exported fields under their tags, in declaration order.
\<close>

definition marshalScaleVolume :: "scaleVolume \<Rightarrow> jsonObject" where
  "marshalScaleVolume v =
     [(''volName'', JString (VolName v)),
      (''volID'', JString (VolID v)),
      (''volSize'', JNumber (sint (VolSize v))),
      (''volIscsi'', JBool (VolIscsi v)),
      (''volIscsiVid'', JString (VolIscsiVid v)),
      (''volBackendFs'', JString (VolBackendFs v))]"

text \<open>
  Decoding matches a member's key against the tags without regard to letter case, ignores
  keys that match no tag, leaves a field as it is on \<open>null\<close>, and reports a value of the
  wrong type or an integer outside \<open>int64\<close> as an error.
\<close>

definition asciiLower :: "char \<Rightarrow> char" where
  "asciiLower c =
     (if 65 \<le> (of_char c :: nat) \<and> (of_char c :: nat) \<le> 90
      then char_of ((of_char c :: nat) + 32) else c)"

definition keyMatches :: "string \<Rightarrow> string \<Rightarrow> bool" where
  "keyMatches k tag = (map asciiLower k = map asciiLower tag)"

definition typeError :: "string \<Rightarrow> goerror" where
  "typeError field =
     ExternalError (''json: cannot unmarshal value into Go struct field scaleVolume.'' @ field)"

fun setString :: "string \<Rightarrow> jsonValue \<Rightarrow> (string \<Rightarrow> scaleVolume) \<Rightarrow> scaleVolume \<Rightarrow> goerror + scaleVolume" where
  "setString field (JString s) upd v = Inr (upd s)"
| "setString field JNull upd v = Inr v"
| "setString field other upd v = Inl (typeError field)"

fun setInt64 :: "string \<Rightarrow> jsonValue \<Rightarrow> (int64 \<Rightarrow> scaleVolume) \<Rightarrow> scaleVolume \<Rightarrow> goerror + scaleVolume" where
  "setInt64 field (JNumber n) upd v =
     (if - (2 ^ 63) \<le> n \<and> n < 2 ^ 63 then Inr (upd (word_of_int n))
      else Inl (typeError field))"
| "setInt64 field JNull upd v = Inr v"
| "setInt64 field other upd v = Inl (typeError field)"

fun setBool :: "string \<Rightarrow> jsonValue \<Rightarrow> (bool \<Rightarrow> scaleVolume) \<Rightarrow> scaleVolume \<Rightarrow> goerror + scaleVolume" where
  "setBool field (JBool b) upd v = Inr (upd b)"
| "setBool field JNull upd v = Inr v"
| "setBool field other upd v = Inl (typeError field)"

definition setMember :: "string \<times> jsonValue \<Rightarrow> scaleVolume \<Rightarrow> goerror + scaleVolume" where
  "setMember m v =
     (let k = fst m; x = snd m in
      if keyMatches k ''volName'' then setString ''volName'' x (\<lambda>s. v\<lparr>VolName := s\<rparr>) v
      else if keyMatches k ''volID'' then setString ''volID'' x (\<lambda>s. v\<lparr>VolID := s\<rparr>) v
      else if keyMatches k ''volSize'' then setInt64 ''volSize'' x (\<lambda>n. v\<lparr>VolSize := n\<rparr>) v
      else if keyMatches k ''volIscsi'' then setBool ''volIscsi'' x (\<lambda>b. v\<lparr>VolIscsi := b\<rparr>) v
      else if keyMatches k ''volIscsiVid'' then
        setString ''volIscsiVid'' x (\<lambda>s. v\<lparr>VolIscsiVid := s\<rparr>) v
      else if keyMatches k ''volBackendFs'' then
        setString ''volBackendFs'' x (\<lambda>s. v\<lparr>VolBackendFs := s\<rparr>) v
      else Inr v)"

fun unmarshalScaleVolume :: "jsonObject \<Rightarrow> scaleVolume \<Rightarrow> goerror + scaleVolume" where
  "unmarshalScaleVolume [] v = Inr v"
| "unmarshalScaleVolume (m # ms) v =
     (case setMember m v of
        Inl err \<Rightarrow> Inl err
      | Inr v1 \<Rightarrow> unmarshalScaleVolume ms v1)"

text \<open>
  The file system calls. Each failure is a \<open>*PathError\<close>; \<open>os.Create\<close> truncates the file,
  \<open>os.Remove\<close> of a path that does not exist fails with \<open>ENOENT\<close>. \<open>Encode\<close> writes
  the document and a newline; a failed write leaves a prefix of the data in the file.
  \<open>Decode\<close> parses the content and fills the record.
\<close>

definition os_Create :: "env \<Rightarrow> string \<Rightarrow> world \<Rightarrow> goerror option \<times> world" where
  "os_Create env file w =
     (let w1 = emit (OsCreate file) w in
      case osCreateFault env file of
        Some e \<Rightarrow> (Some (PathError ''open'' file e), w1)
      | None \<Rightarrow> (None, w1\<lparr>files := (files w1)(file \<mapsto> [])\<rparr>))"

definition encoder_Encode :: "env \<Rightarrow> string \<Rightarrow> scaleVolume \<Rightarrow> world \<Rightarrow> goerror option \<times> world" where
  "encoder_Encode env file v w =
     (let w1 = emit (OsWrite file) w;
          bytes = jsonRender env (marshalScaleVolume v) @ [CHR 0x0A] in
      case osWriteFault env file of
        Some (e, n) \<Rightarrow>
          (Some (PathError ''write'' file e), w1\<lparr>files := (files w1)(file \<mapsto> take n bytes)\<rparr>)
      | None \<Rightarrow> (None, w1\<lparr>files := (files w1)(file \<mapsto> bytes)\<rparr>))"

definition decoder_Decode :: "env \<Rightarrow> string \<Rightarrow> scaleVolume \<Rightarrow> goerror + scaleVolume" where
  "decoder_Decode env content v =
     (case jsonParse env content of
        Inl err \<Rightarrow> Inl err
      | Inr doc \<Rightarrow> unmarshalScaleVolume doc v)"

definition os_Open :: "env \<Rightarrow> string \<Rightarrow> world \<Rightarrow> (goerror + string) \<times> world" where
  "os_Open env file w =
     (let w1 = emit (OsOpen file) w in
      case files w1 file of
        None \<Rightarrow> (Inl (PathError ''open'' file ENOENT), w1)
      | Some content \<Rightarrow>
          (case osOpenFault env file of
             Some e \<Rightarrow> (Inl (PathError ''open'' file e), w1)
           | None \<Rightarrow> (Inr content, w1)))"

definition os_Remove :: "env \<Rightarrow> string \<Rightarrow> world \<Rightarrow> goerror option \<times> world" where
  "os_Remove env file w =
     (let w1 = emit (OsRemove file) w in
      case files w1 file of
        None \<Rightarrow> (Some (PathError ''remove'' file ENOENT), w1)
      | Some content \<Rightarrow>
          (case osRemoveFault env file of
             Some e \<Rightarrow> (Some (PathError ''remove'' file e), w1)
           | None \<Rightarrow> (None, w1\<lparr>files := (files w1)(file := None)\<rparr>)))"

section \<open>csiplugin/gpfs\_util.go\<close>

text \<open>
  The loop of \<open>createScaleImage\<close> (lines 82-88) over the node list: attach the device to
  each node in turn, stop at the first failure.
\<close>

fun attachNodes :: "env \<Rightarrow> string \<Rightarrow> string \<Rightarrow> string list \<Rightarrow> world \<Rightarrow> goerror option \<times> world" where
  "attachNodes env iphost iqn [] w = (None, w)"
| "attachNodes env iphost iqn (node # nodes) w =
     (let w1 = emit (AttachIscsiDevicesToNode iphost iqn node) w in
      case opsAttachIscsiDevicesToNode env iphost iqn node of
        Some err \<Rightarrow> (Some err, w1)
      | None \<Rightarrow> attachNodes env iphost iqn nodes w1)"

text \<open>
  Lines 70-99 of \<open>createScaleImage\<close>: the backing device, from a new iSCSI volume when
  \<open>VolIscsi\<close> is set (recording its identifier in \<open>VolIscsiVid\<close>), from the raw device
  scheduler otherwise.
\<close>

definition pickDevice :: "env \<Rightarrow> scaleVolume \<Rightarrow> int64 \<Rightarrow> world \<Rightarrow> (goerror + string) \<times> scaleVolume \<times> world" where
  "pickDevice env pOpts volSzMb w =
     (let volName = VolID pOpts in
      if VolIscsi pOpts then
        (let w1 = emit (IscsiCreateVolume volName volSzMb) w in
         case iscsiCreateVolume env volName volSzMb of
           Inl err \<Rightarrow> (Inl err, pOpts, w1)
         | Inr pbVol \<Rightarrow>
             (let pOpts1 = pOpts\<lparr>VolIscsiVid := Vid pbVol\<rparr>;
                  nodes = [''fin27p'', ''fin31p'', ''fin57p''] in
              case attachNodes env (Iphost pbVol) (Iqn pbVol) nodes w1 of
                (Some err, w2) \<Rightarrow> (Inl err, pOpts1, w2)
              | (None, w2) \<Rightarrow>
                  (let lun = strconv_Itoa (Lun pbVol);
                       w3 = emit (IscsiGetDevicePath (Iphost pbVol) (Iqn pbVol) lun) w2;
                       device = iscsiGetDevicePath env (Iphost pbVol) (Iqn pbVol) lun in
                   (Inr (''fin31p:'' @ device), pOpts1, w3))))
      else
        (let w1 = emit PickNextRawDevice w in
         case opsPickNextRawDevice env of
           Inl err \<Rightarrow> (Inl err, pOpts, w1)
         | Inr device \<Rightarrow> (Inr device, pOpts, w1)))"

text \<open>
  \<open>createScaleImage\<close> (lines 42-115). It writes \<open>VolIscsiVid\<close> through the pointer
  \<open>pOpts\<close>, so the record is returned with the error.
\<close>

definition createScaleImage :: "env \<Rightarrow> scaleVolume \<Rightarrow> int64 \<Rightarrow> world \<Rightarrow> goerror option \<times> scaleVolume \<times> world" where
  "createScaleImage env pOpts volSzMb w =
     (let volName = VolID pOpts in
      if length (VolBackendFs pOpts) > 0 then
        (let s = strings_Split (VolBackendFs pOpts) CHR ''/'';
             fsName = last s;
             w1 = emit (CreateFSet fsName volName) w in
         case opsCreateFSet env fsName volName of
           Some err \<Rightarrow> (Some err, pOpts, w1)
         | None \<Rightarrow>
             (let linkPath = VolBackendFs pOpts @ ''/'' @ volName;
                  w2 = emit (LinkFSet fsName volName linkPath) w1 in
              case opsLinkFSet env fsName volName linkPath of
                Some err \<Rightarrow> (Some err, pOpts, w2)
              | None \<Rightarrow> (None, pOpts, w2)))
      else
        (case pickDevice env pOpts volSzMb w of
           (Inl err, pOpts1, w1) \<Rightarrow> (Some err, pOpts1, w1)
         | (Inr device, pOpts1, w1) \<Rightarrow>
             (let w2 = emit (CreateNSD volName device) w1 in
              case opsCreateNSD env volName device of
                Some err \<Rightarrow> (Some err, pOpts1, w2)
              | None \<Rightarrow>
                  (let w3 = emit (CreateFS volName volName) w2 in
                   case opsCreateFS env volName volName of
                     Some err \<Rightarrow> (Some err, pOpts1, w3)
                   | None \<Rightarrow> (None, pOpts1, w3)))))"

text \<open>\<open>getScaleVolumeOptions\<close> (lines 117-126): the error returned is always nil.\<close>

definition getScaleVolumeOptions :: "(string \<rightharpoonup> string) \<Rightarrow> scaleVolume \<times> goerror option" where
  "getScaleVolumeOptions volOptions =
     (zeroScaleVolume
        \<lparr>VolIscsi := fst (strconv_ParseBool (mapIndex volOptions ''volIscsi'')),
         VolBackendFs := mapIndex volOptions ''volBackendFs''\<rparr>,
      None)"

text \<open>\<open>getScaleVolumeByName\<close> (lines 128-135): the first entry visited that has the name.\<close>

fun getScaleVolumeByName :: "(string \<times> scaleVolume) list \<Rightarrow> string \<Rightarrow> goerror + scaleVolume" where
  "getScaleVolumeByName [] volName =
     Inl (Errorf (''volume name '' @ volName @ '' does not exit in the volumes list''))"
| "getScaleVolumeByName ((k, scaleVol) # rest) volName =
     (if VolName scaleVol = volName then Inr scaleVol
      else getScaleVolumeByName rest volName)"

text \<open>\<open>persistVolInfo\<close> (lines 137-152).\<close>

definition persistVolInfo :: "env \<Rightarrow> string \<Rightarrow> string \<Rightarrow> scaleVolume \<Rightarrow> world \<Rightarrow> goerror option \<times> world" where
  "persistVolInfo env imageName persistentStoragePath volInfo w =
     (let file = path_Join env persistentStoragePath (imageName @ ''.json'') in
      case os_Create env file w of
        (Some err, w1) \<Rightarrow>
          (Some (Errorf (''scale: create err '' @ file @ ''/'' @ errorString err)), w1)
      | (None, w1) \<Rightarrow>
          (case encoder_Encode env file volInfo w1 of
             (Some err, w2) \<Rightarrow> (Some (Errorf (''scale: encode err: '' @ errorString err)), w2)
           | (None, w2) \<Rightarrow> (None, w2)))"

text \<open>
  \<open>loadVolInfo\<close> (lines 153-167). The decoder fills the record behind \<open>volInfo\<close>; the
  result carries the record when the error is nil.
\<close>

definition loadVolInfo :: "env \<Rightarrow> string \<Rightarrow> string \<Rightarrow> scaleVolume \<Rightarrow> world \<Rightarrow> (goerror + scaleVolume) \<times> world" where
  "loadVolInfo env imageName persistentStoragePath volInfo w =
     (let file = path_Join env persistentStoragePath (imageName @ ''.json'') in
      case os_Open env file w of
        (Inl err, w1) \<Rightarrow>
          (Inl (Errorf (''scale: open err '' @ file @ ''/'' @ errorString err)), w1)
      | (Inr content, w1) \<Rightarrow>
          (case decoder_Decode env content volInfo of
             Inl err \<Rightarrow> (Inl (Errorf (''scale: decode err: '' @ errorString err @ ''.'')), w1)
           | Inr v \<Rightarrow> (Inr v, w1)))"

text \<open>
  \<open>deleteVolInfo\<close> (lines 169-179): the error of \<open>os.Remove\<close> is compared with the
  sentinel \<open>os.ErrNotExist\<close> by \<open>!=\<close>.
\<close>

definition deleteVolInfo :: "env \<Rightarrow> string \<Rightarrow> string \<Rightarrow> world \<Rightarrow> goerror option \<times> world" where
  "deleteVolInfo env imageName persistentStoragePath w =
     (let file = path_Join env persistentStoragePath (imageName @ ''.json'') in
      case os_Remove env file w of
        (Some err, w1) \<Rightarrow>
          (if err \<noteq> ErrNotExist
           then (Some (Errorf (''scale: error removing file: '' @ file @ ''/'' @ errorString err)), w1)
           else (None, w1))
      | (None, w1) \<Rightarrow> (None, w1))"

text \<open>\<open>deleteScaleImage\<close> (lines 194-234).\<close>

definition deleteScaleImage :: "env \<Rightarrow> scaleVolume \<Rightarrow> world \<Rightarrow> goerror option \<times> world" where
  "deleteScaleImage env pOpts w =
     (let volId = VolID pOpts in
      if length (VolBackendFs pOpts) > 0 then
        (let s = strings_Split (VolBackendFs pOpts) CHR ''/'';
             fsName = last s;
             w1 = emit (UnlinkFSet fsName volId) w in
         case opsUnlinkFSet env fsName volId of
           Some err \<Rightarrow> (Some err, w1)
         | None \<Rightarrow>
             (let w2 = emit (DeleteFSet fsName volId) w1 in
              case opsDeleteFSet env fsName volId of
                Some err \<Rightarrow> (Some err, w2)
              | None \<Rightarrow> (None, w2)))
      else
        (let w1 = emit (DeleteFS volId) w in
         case opsDeleteFS env volId of
           Some err \<Rightarrow> (Some (Errorf (''failed to delete scale fs: '' @ errorString err)), w1)
         | None \<Rightarrow>
             (let w2 = emit (DeleteNSD volId) w1 in
              case opsDeleteNSD env volId of
                Some err \<Rightarrow> (Some (Errorf (''failed to delete scale nsd: '' @ errorString err)), w2)
              | None \<Rightarrow>
                  (let w3 = emit (IscsiDeleteVolume (VolIscsiVid pOpts)) w2 in
                   (iscsiDeleteVolume env (VolIscsiVid pOpts), w3)))))"

section \<open>The controller server\<close>

definition oneGB :: int64 where
  "oneGB = 1073741824"

text \<open>
  \<open>CreateVolume\<close>, lines 79-129: the path taken when no volume has the requested name.
  The name test of line 89 is kept as written.
\<close>

definition createNewVolume :: "env \<Rightarrow> createVolumeRequest \<Rightarrow> world \<Rightarrow> (status + volume) \<times> world" where
  "createNewVolume env req w =
     (case getScaleVolumeOptions (Parameters req) of
        (scaleVol0, Some err) \<Rightarrow>
          (Inl (status_Error Internal
                  (''CreateVolume unable to get volume options: '' @ errorString err)), w)
      | (scaleVol0, None) \<Rightarrow>
          (let volName0 = Name req;
               w1 = emit NewUUID w;
               uniqueID = newUUID env;
               volName = (if length volName0 = 0 then ''dynamic_pvc_'' @ uniqueID else volName0);
               scaleVol1 = scaleVol0\<lparr>VolName := volName\<rparr>;
               volumeID = (if length (VolBackendFs scaleVol1) > 0
                           then uniqueID @ ''-fileset'' else uniqueID);
               scaleVol2 = scaleVol1\<lparr>VolID := volumeID\<rparr>;
               volSizeBytes = (case CapacityRange req of
                                 None \<Rightarrow> oneGB
                               | Some r \<Rightarrow> RequiredBytes r);
               scaleVol3 = scaleVol2\<lparr>VolSize := volSizeBytes\<rparr>;
               volSizeMB = int64_quo (int64_quo volSizeBytes 1024) 1024
           in case createScaleImage env scaleVol3 volSizeMB w1 of
                (Some err, scaleVol4, w2) \<Rightarrow>
                  (Inl (status_Error Internal
                          (''Failed to create volume: '' @ errorString err)), w2)
              | (None, scaleVol4, w2) \<Rightarrow>
                  (case persistVolInfo env volumeID
                          (path_Join env (PluginFolder env) ''controller'') scaleVol4 w2 of
                     (Some err, w3) \<Rightarrow>
                       (Inl (status_Error Internal
                               (''failed to store volInfo with error: '' @ errorString err)), w3)
                   | (None, w3) \<Rightarrow>
                       (Inr \<lparr>VolumeId = volumeID, CapacityBytes = volSizeBytes,
                             VolumeContext = Parameters req\<rparr>,
                        emit (RegistryInsert volumeID)
                          (w3\<lparr>scaleVolumes :=
                                AList.update volumeID scaleVol4 (scaleVolumes w3)\<rparr>)))))"

text \<open>\<open>CreateVolume\<close> (lines 41-130).\<close>

definition CreateVolume :: "env \<Rightarrow> createVolumeRequest \<Rightarrow> world \<Rightarrow> (status + volume) \<times> world" where
  "CreateVolume env req w =
     (case validateControllerServiceRequest env of
        Some err \<Rightarrow>
          (Inl (status_Error Internal
                  (''CreateVolume ValidateControllerServiceRequest failed: '' @ errorString err)), w)
      | None \<Rightarrow>
          if length (Name req) = 0 then
            (Inl (status_Error InvalidArgument ''Volume Name cannot be empty''), w)
          else if VolumeCapabilities req = None then
            (Inl (status_Error InvalidArgument ''Volume Capabilities cannot be empty''), w)
          else
            (case getScaleVolumeByName (scaleVolumes w) (Name req) of
               Inr exVol \<Rightarrow>
                 if sint (VolSize exVol) \<ge> sint (GetRequiredBytes (CapacityRange req)) then
                   (Inr \<lparr>VolumeId = VolID exVol, CapacityBytes = VolSize exVol,
                         VolumeContext = Parameters req\<rparr>, w)
                 else
                   (Inl (status_Error AlreadyExists
                           (''Volume with the same name: '' @ Name req
                            @ '' but with different size already exist'')), w)
             | Inl err \<Rightarrow> createNewVolume env req w))"

text \<open>\<open>DeleteVolume\<close> (lines 132-161).\<close>

definition DeleteVolume :: "env \<Rightarrow> deleteVolumeRequest \<Rightarrow> world \<Rightarrow> (status + unit) \<times> world" where
  "DeleteVolume env req w =
     (case validateControllerServiceRequest env of
        Some err \<Rightarrow>
          (Inl (status_Error InvalidArgument
                  (''invalid delete volume req ('' @ fmtRequest env req @ ''): ''
                   @ errorString err)), w)
      | None \<Rightarrow>
          (let volumeID = VolumeIdReq req;
               dir = path_Join env (PluginFolder env) ''controller'' in
           case loadVolInfo env volumeID dir zeroScaleVolume w of
             (Inl err, w1) \<Rightarrow>
               (Inl (status_Error Internal (''failed to load volInfo: '' @ errorString err)), w1)
           | (Inr scaleVol, w1) \<Rightarrow>
               (let volName = VolName scaleVol in
                case deleteScaleImage env scaleVol w1 of
                  (Some err, w2) \<Rightarrow>
                    (Inl (status_Error Internal
                            (''failed to delete scale image: '' @ volName @ '' with error: ''
                             @ errorString err)), w2)
                | (None, w2) \<Rightarrow>
                    (case deleteVolInfo env volumeID dir w2 of
                       (Some err, w3) \<Rightarrow>
                         (Inl (status_Error Internal
                                 (''failed to delete volInfo with error: '' @ errorString err)), w3)
                     | (None, w3) \<Rightarrow>
                         (Inr (),
                          emit (RegistryDelete volumeID)
                            (w3\<lparr>scaleVolumes := AList.delete volumeID (scaleVolumes w3)\<rparr>))))))"

text \<open>
  The record and the size handed to \<open>createScaleImage\<close> by lines 87-105 of
  \<open>CreateVolume\<close> (the same computation as in \<open>createNewVolume\<close>, named so that
  statements can refer to it).
\<close>

definition preparedVolume :: "env \<Rightarrow> createVolumeRequest \<Rightarrow> scaleVolume" where
  "preparedVolume env req =
     (let scaleVol0 = fst (getScaleVolumeOptions (Parameters req));
          volName0 = Name req;
          uniqueID = newUUID env;
          volName = (if length volName0 = 0 then ''dynamic_pvc_'' @ uniqueID else volName0);
          scaleVol1 = scaleVol0\<lparr>VolName := volName\<rparr>;
          volumeID = (if length (VolBackendFs scaleVol1) > 0
                      then uniqueID @ ''-fileset'' else uniqueID);
          scaleVol2 = scaleVol1\<lparr>VolID := volumeID\<rparr>;
          volSizeBytes = (case CapacityRange req of
                            None \<Rightarrow> oneGB
                          | Some r \<Rightarrow> RequiredBytes r)
      in scaleVol2\<lparr>VolSize := volSizeBytes\<rparr>)"

definition preparedSizeMB :: "env \<Rightarrow> createVolumeRequest \<Rightarrow> int64" where
  "preparedSizeMB env req = int64_quo (int64_quo (VolSize (preparedVolume env req)) 1024) 1024"

definition controllerDir :: "env \<Rightarrow> string" where
  "controllerDir env = path_Join env (PluginFolder env) ''controller''"

text \<open>Events of the metadata store and of the registry, and events of the two back ends.\<close>

fun isStoreEvent :: "event \<Rightarrow> bool" where
  "isStoreEvent (OsCreate f) = True"
| "isStoreEvent (OsWrite f) = True"
| "isStoreEvent (OsOpen f) = True"
| "isStoreEvent (OsRemove f) = True"
| "isStoreEvent (RegistryInsert k) = True"
| "isStoreEvent (RegistryDelete k) = True"
| "isStoreEvent e = False"

fun isBackendEvent :: "event \<Rightarrow> bool" where
  "isBackendEvent (OsCreate f) = False"
| "isBackendEvent (OsWrite f) = False"
| "isBackendEvent (OsOpen f) = False"
| "isBackendEvent (OsRemove f) = False"
| "isBackendEvent (RegistryInsert k) = False"
| "isBackendEvent (RegistryDelete k) = False"
| "isBackendEvent NewUUID = False"
| "isBackendEvent e = True"

section \<open>A sample deployment\<close>

text \<open>
  A concrete environment in which every collaborator succeeds, used to run the functions
  on concrete inputs. Its JSON text is a plain rendering without escapes, and its parser
  knows the documents of a given list.
\<close>

fun sampleRenderValue :: "jsonValue \<Rightarrow> string" where
  "sampleRenderValue (JString s) = [CHR 0x22] @ s @ [CHR 0x22]"
| "sampleRenderValue (JNumber n) = strconv_Itoa n"
| "sampleRenderValue (JBool b) = (if b then ''true'' else ''false'')"
| "sampleRenderValue JNull = ''null''"
| "sampleRenderValue JOther = ''[]''"

fun sampleRenderMembers :: "jsonObject \<Rightarrow> string" where
  "sampleRenderMembers [] = []"
| "sampleRenderMembers [(k, x)] = [CHR 0x22] @ k @ [CHR 0x22] @ '':'' @ sampleRenderValue x"
| "sampleRenderMembers ((k, x) # m # ms) =
     [CHR 0x22] @ k @ [CHR 0x22] @ '':'' @ sampleRenderValue x @ '','' @ sampleRenderMembers (m # ms)"

definition sampleRender :: "jsonObject \<Rightarrow> string" where
  "sampleRender doc = ''{'' @ sampleRenderMembers doc @ ''}''"

definition sampleParse :: "jsonObject list \<Rightarrow> string \<Rightarrow> goerror + jsonObject" where
  "sampleParse known s =
     (case find (\<lambda>d. sampleRender d @ [CHR 0x0A] = s) known of
        Some d \<Rightarrow> Inr d
      | None \<Rightarrow> Inl (ExternalError ''invalid character''))"

definition volA :: scaleVolume where
  "volA = \<lparr>VolName = ''pvc-a'', VolID = ''u-0'', VolSize = 1073741824, VolIscsi = False,
           VolIscsiVid = [], VolBackendFs = []\<rparr>"

definition okEnv :: env where
  "okEnv =
     \<lparr>validateControllerServiceRequest = None,
      newUUID = ''u-1'',
      PluginFolder = ''/plugin'',
      path_Join = (\<lambda>a b. a @ ''/'' @ b),
      fmtRequest = VolumeIdReq,
      opsCreateFSet = (\<lambda>fs name. None),
      opsLinkFSet = (\<lambda>fs name p. None),
      opsUnlinkFSet = (\<lambda>fs name. None),
      opsDeleteFSet = (\<lambda>fs name. None),
      opsAttachIscsiDevicesToNode = (\<lambda>host iqn node. None),
      opsPickNextRawDevice = Inr ''/dev/sdb'',
      opsCreateNSD = (\<lambda>name device. None),
      opsCreateFS = (\<lambda>name nsd. None),
      opsDeleteFS = (\<lambda>name. None),
      opsDeleteNSD = (\<lambda>name. None),
      iscsiCreateVolume = (\<lambda>name sz. Inr \<lparr>Vid = ''vid-1'', Iphost = ''10.0.0.1'',
                                             Iqn = ''iqn.2018-01.scale:vol'', Lun = 0\<rparr>),
      iscsiGetDevicePath = (\<lambda>host iqn lun. ''/dev/disk/by-path/'' @ host @ ''-'' @ iqn @ ''-'' @ lun),
      iscsiDeleteVolume = (\<lambda>vid. None),
      osCreateFault = (\<lambda>f. None),
      osWriteFault = (\<lambda>f. None),
      osOpenFault = (\<lambda>f. None),
      osRemoveFault = (\<lambda>f. None),
      jsonRender = sampleRender,
      jsonParse = sampleParse [marshalScaleVolume volA]\<rparr>"

text \<open>The empty world, and a world that holds \<open>volA\<close> in the registry and in the store.\<close>

definition w0 :: world where
  "w0 = \<lparr>scaleVolumes = [], files = Map.empty, trace = []\<rparr>"

definition wA :: world where
  "wA = \<lparr>scaleVolumes = [(''u-0'', volA)],
          files = [''/plugin/controller/u-0.json'' \<mapsto>
                     sampleRender (marshalScaleVolume volA) @ [CHR 0x0A]],
          trace = []\<rparr>"

text \<open>Scenario 1 of the specification: name \<open>pvc-a\<close>, no capacity range, no parameters.\<close>

definition reqPvcA :: createVolumeRequest where
  "reqPvcA = \<lparr>Name = ''pvc-a'', CapacityRange = None,
              VolumeCapabilities = Some [MULTI_NODE_MULTI_WRITER], Parameters = Map.empty\<rparr>"

text \<open>Variants of the sample environment in which one collaborator fails.\<close>

definition noDriverEnv :: env where
  "noDriverEnv =
     okEnv\<lparr>validateControllerServiceRequest :=
              Some (ExternalError ''Invalid controller service request'')\<rparr>"

definition nsdFailEnv :: env where
  "nsdFailEnv = okEnv\<lparr>opsCreateNSD := (\<lambda>name device. Some (ExternalError ''mmcrnsd failed''))\<rparr>"

definition diskFullEnv :: env where
  "diskFullEnv = okEnv\<lparr>osWriteFault := (\<lambda>f. Some (ENOSPC, 0))\<rparr>"

definition fsBusyEnv :: env where
  "fsBusyEnv = okEnv\<lparr>opsDeleteFS := (\<lambda>name. Some (ExternalError ''mmdelfs failed''))\<rparr>"

text \<open>
  Requests derived from scenario 1: without a capability list (nil), with an empty
  capability list that is not nil, with an empty name, and asking for 2 GiB.
\<close>

definition reqNilCaps :: createVolumeRequest where
  "reqNilCaps = reqPvcA\<lparr>VolumeCapabilities := None\<rparr>"

definition reqEmptyCaps :: createVolumeRequest where
  "reqEmptyCaps = reqPvcA\<lparr>VolumeCapabilities := Some []\<rparr>"

definition reqNoName :: createVolumeRequest where
  "reqNoName = reqPvcA\<lparr>Name := []\<rparr>"

definition reqTwoGiB :: createVolumeRequest where
  "reqTwoGiB = reqPvcA\<lparr>CapacityRange := Some \<lparr>RequiredBytes = 2147483648, LimitBytes = 0\<rparr>\<rparr>"

section \<open>Basic facts\<close>

lemma emitted_same [simp]: "emitted w w = []"
  by (simp add: emitted_def)

lemma trace_emit [simp]: "trace (emit e w) = trace w @ [e]"
  by (simp add: emit_def)

lemma files_emit [simp]: "files (emit e w) = files w"
  by (simp add: emit_def)

lemma scaleVolumes_emit [simp]: "scaleVolumes (emit e w) = scaleVolumes w"
  by (simp add: emit_def)

lemma emitted_append: "trace w' = trace w @ evs \<Longrightarrow> emitted w w' = evs"
  by (simp add: emitted_def)

lemma filter_store_backend: "list_all isBackendEvent evs \<Longrightarrow> filter isStoreEvent evs = []"
proof (induction evs)
  case Nil
  then show ?case by simp
next
  case (Cons e evs)
  then show ?case by (cases e) simp_all
qed

lemma backend_no_registry: "list_all isBackendEvent evs \<Longrightarrow> RegistryInsert k \<notin> set evs"
  by (induction evs) auto

lemma backend_no_delete:
  "list_all isBackendEvent evs \<Longrightarrow> RegistryDelete k \<notin> set evs \<and> OsRemove f \<notin> set evs"
  by (induction evs) auto

subsection \<open>What the back-end sequences leave untouched\<close>

text \<open>
  The provisioning and teardown sequences change neither the files nor the registry, and
  add only back-end calls to the trace; \<open>createScaleImage\<close> changes no field of the
  record other than \<open>VolIscsiVid\<close>.
\<close>

lemma attachNodes_frame:
  "attachNodes env iphost iqn nodes w = (r, w') \<Longrightarrow>
   files w' = files w \<and> scaleVolumes w' = scaleVolumes w \<and>
   (\<exists>evs. trace w' = trace w @ evs \<and> list_all isBackendEvent evs)"
proof (induction nodes arbitrary: w)
  case Nil
  then show ?case by simp
next
  case (Cons node nodes)
  show ?case
  proof (cases "opsAttachIscsiDevicesToNode env iphost iqn node")
    case None
    with Cons.prems have
      "attachNodes env iphost iqn nodes (emit (AttachIscsiDevicesToNode iphost iqn node) w) = (r, w')"
      by (simp add: Let_def)
    from Cons.IH [OF this] show ?thesis by auto
  next
    case (Some err)
    with Cons.prems show ?thesis by (auto simp add: Let_def)
  qed
qed

lemma pickDevice_frame:
  assumes "pickDevice env pOpts volSzMb w = (r, pOpts', w')"
  shows "files w' = files w \<and> scaleVolumes w' = scaleVolumes w \<and>
         (\<exists>evs. trace w' = trace w @ evs \<and> list_all isBackendEvent evs) \<and>
         VolName pOpts' = VolName pOpts \<and> VolID pOpts' = VolID pOpts \<and>
         VolSize pOpts' = VolSize pOpts \<and> VolIscsi pOpts' = VolIscsi pOpts \<and>
         VolBackendFs pOpts' = VolBackendFs pOpts"
proof (cases "VolIscsi pOpts")
  case False
  with assms show ?thesis
    by (auto simp add: pickDevice_def Let_def split: sum.splits)
next
  case True
  show ?thesis
  proof (cases "iscsiCreateVolume env (VolID pOpts) volSzMb")
    case (Inl err)
    with True assms show ?thesis by (auto simp add: pickDevice_def Let_def)
  next
    case (Inr pbVol)
    obtain a wa where att:
      "attachNodes env (Iphost pbVol) (Iqn pbVol) [''fin27p'', ''fin31p'', ''fin57p'']
         (emit (IscsiCreateVolume (VolID pOpts) volSzMb) w) = (a, wa)"
      by (cases "attachNodes env (Iphost pbVol) (Iqn pbVol) [''fin27p'', ''fin31p'', ''fin57p'']
         (emit (IscsiCreateVolume (VolID pOpts) volSzMb) w)") blast
    from attachNodes_frame [OF att] obtain evs where
      fr: "files wa = files w" "scaleVolumes wa = scaleVolumes w"
          "trace wa = trace w @ IscsiCreateVolume (VolID pOpts) volSzMb # evs"
          "list_all isBackendEvent evs"
      by auto
    from True Inr att assms fr show ?thesis
      by (cases a) (auto simp add: pickDevice_def Let_def simp del: attachNodes.simps)
  qed
qed

lemma createScaleImage_frame:
  assumes "createScaleImage env pOpts volSzMb w = (r, pOpts', w')"
  shows "files w' = files w \<and> scaleVolumes w' = scaleVolumes w \<and>
         (\<exists>evs. trace w' = trace w @ evs \<and> list_all isBackendEvent evs) \<and>
         VolName pOpts' = VolName pOpts \<and> VolID pOpts' = VolID pOpts \<and>
         VolSize pOpts' = VolSize pOpts \<and> VolIscsi pOpts' = VolIscsi pOpts \<and>
         VolBackendFs pOpts' = VolBackendFs pOpts"
proof (cases "VolBackendFs pOpts = []")
  case False
  with assms show ?thesis
    by (auto simp add: createScaleImage_def Let_def split: option.splits)
next
  case True
  obtain d p1 w1 where pd: "pickDevice env pOpts volSzMb w = (d, p1, w1)"
    by (cases "pickDevice env pOpts volSzMb w") auto
  from pickDevice_frame [OF pd] obtain evs where
    fr: "files w1 = files w" "scaleVolumes w1 = scaleVolumes w"
        "trace w1 = trace w @ evs" "list_all isBackendEvent evs"
        "VolName p1 = VolName pOpts" "VolID p1 = VolID pOpts" "VolSize p1 = VolSize pOpts"
        "VolIscsi p1 = VolIscsi pOpts" "VolBackendFs p1 = VolBackendFs pOpts"
    by auto
  from True pd assms fr show ?thesis
    by (cases d) (auto simp add: createScaleImage_def Let_def split: option.splits)
qed

lemma deleteScaleImage_frame:
  assumes "deleteScaleImage env pOpts w = (r, w')"
  shows "files w' = files w \<and> scaleVolumes w' = scaleVolumes w \<and>
         (\<exists>evs. trace w' = trace w @ evs \<and> list_all isBackendEvent evs)"
  using assms
  by (auto simp add: deleteScaleImage_def Let_def split: option.splits if_splits)

subsection \<open>The JSON form of a record\<close>

lemma keyMatches_tags [simp]:
  "keyMatches ''volName'' ''volName''"
  "\<not> keyMatches ''volID'' ''volName''"
  "keyMatches ''volID'' ''volID''"
  "\<not> keyMatches ''volSize'' ''volName''"
  "\<not> keyMatches ''volSize'' ''volID''"
  "keyMatches ''volSize'' ''volSize''"
  "\<not> keyMatches ''volIscsi'' ''volName''"
  "\<not> keyMatches ''volIscsi'' ''volID''"
  "\<not> keyMatches ''volIscsi'' ''volSize''"
  "keyMatches ''volIscsi'' ''volIscsi''"
  "\<not> keyMatches ''volIscsiVid'' ''volName''"
  "\<not> keyMatches ''volIscsiVid'' ''volID''"
  "\<not> keyMatches ''volIscsiVid'' ''volSize''"
  "\<not> keyMatches ''volIscsiVid'' ''volIscsi''"
  "keyMatches ''volIscsiVid'' ''volIscsiVid''"
  "\<not> keyMatches ''volBackendFs'' ''volName''"
  "\<not> keyMatches ''volBackendFs'' ''volID''"
  "\<not> keyMatches ''volBackendFs'' ''volSize''"
  "\<not> keyMatches ''volBackendFs'' ''volIscsi''"
  "\<not> keyMatches ''volBackendFs'' ''volIscsiVid''"
  "keyMatches ''volBackendFs'' ''volBackendFs''"
  by (simp_all add: keyMatches_def asciiLower_def)

lemma int64_of_sint: "word_of_int (sint (x :: int64)) = x"
  by simp

lemma sint_int64_range: "- (2 ^ 63) \<le> sint (x :: int64) \<and> sint x < 2 ^ 63"
  using sint_ge [of x] sint_lt [of x] by simp

lemma unmarshal_marshal:
  "unmarshalScaleVolume (marshalScaleVolume v) target = Inr v"
  using sint_int64_range [of "VolSize v"]
  by (simp add: marshalScaleVolume_def setMember_def Let_def)

subsection \<open>The metadata store\<close>

lemma persistVolInfo_success:
  assumes "persistVolInfo env imageName dir volInfo w = (None, w')"
  shows "scaleVolumes w' = scaleVolumes w \<and>
         trace w' = trace w @ [OsCreate (path_Join env dir (imageName @ ''.json'')),
                               OsWrite (path_Join env dir (imageName @ ''.json''))] \<and>
         files w' = (files w)(path_Join env dir (imageName @ ''.json'') \<mapsto>
                        jsonRender env (marshalScaleVolume volInfo) @ [CHR 0x0A])"
  using assms
  by (auto simp add: persistVolInfo_def os_Create_def encoder_Encode_def Let_def
      split: option.splits prod.splits)

lemma persistVolInfo_failure:
  assumes "persistVolInfo env imageName dir volInfo w = (Some err, w')"
  shows "scaleVolumes w' = scaleVolumes w \<and>
         (trace w' = trace w @ [OsCreate (path_Join env dir (imageName @ ''.json''))] \<or>
          trace w' = trace w @ [OsCreate (path_Join env dir (imageName @ ''.json'')),
                                OsWrite (path_Join env dir (imageName @ ''.json''))])"
  using assms
  by (auto simp add: persistVolInfo_def os_Create_def encoder_Encode_def Let_def
      split: option.splits prod.splits)

lemma loadVolInfo_frame:
  assumes "loadVolInfo env imageName dir target w = (r, w')"
  shows "scaleVolumes w' = scaleVolumes w \<and> files w' = files w \<and>
         trace w' = trace w @ [OsOpen (path_Join env dir (imageName @ ''.json''))]"
  using assms
  by (auto simp add: loadVolInfo_def os_Open_def Let_def split: option.splits sum.splits)

lemma deleteVolInfo_success:
  assumes "deleteVolInfo env imageName dir w = (None, w')"
  shows "scaleVolumes w' = scaleVolumes w \<and>
         trace w' = trace w @ [OsRemove (path_Join env dir (imageName @ ''.json''))] \<and>
         files w' = (files w)(path_Join env dir (imageName @ ''.json'') := None)"
  using assms
  by (auto simp add: deleteVolInfo_def os_Remove_def Let_def split: option.splits if_splits)

lemma deleteVolInfo_failure:
  assumes "deleteVolInfo env imageName dir w = (Some err, w')"
  shows "scaleVolumes w' = scaleVolumes w \<and> files w' = files w \<and>
         trace w' = trace w @ [OsRemove (path_Join env dir (imageName @ ''.json''))]"
  using assms
  by (auto simp add: deleteVolInfo_def os_Remove_def Let_def split: option.splits if_splits)


subsection \<open>The creation path in named steps\<close>

lemma createNewVolume_unfold:
  "createNewVolume env req w =
     (case createScaleImage env (preparedVolume env req) (preparedSizeMB env req) (emit NewUUID w) of
        (Some err, vol, w2) \<Rightarrow>
          (Inl (status_Error Internal (''Failed to create volume: '' @ errorString err)), w2)
      | (None, vol, w2) \<Rightarrow>
          (case persistVolInfo env (VolID (preparedVolume env req)) (controllerDir env) vol w2 of
             (Some err, w3) \<Rightarrow>
               (Inl (status_Error Internal
                       (''failed to store volInfo with error: '' @ errorString err)), w3)
           | (None, w3) \<Rightarrow>
               (Inr \<lparr>VolumeId = VolID (preparedVolume env req),
                     CapacityBytes = VolSize (preparedVolume env req),
                     VolumeContext = Parameters req\<rparr>,
                emit (RegistryInsert (VolID (preparedVolume env req)))
                  (w3\<lparr>scaleVolumes :=
                        AList.update (VolID (preparedVolume env req)) vol (scaleVolumes w3)\<rparr>))))"
  by (simp add: createNewVolume_def preparedVolume_def preparedSizeMB_def controllerDir_def
      getScaleVolumeOptions_def Let_def split: prod.splits option.splits)

lemma preparedVolume_size:
  "VolSize (preparedVolume env req) =
     (case CapacityRange req of None \<Rightarrow> 1073741824 | Some r \<Rightarrow> RequiredBytes r)"
  by (simp add: preparedVolume_def Let_def oneGB_def split: option.splits)

lemma preparedVolume_no_parameters:
  "Parameters req = Map.empty \<Longrightarrow>
   VolBackendFs (preparedVolume env req) = [] \<and> VolIscsi (preparedVolume env req) = False \<and>
   VolID (preparedVolume env req) = newUUID env"
  by (simp add: preparedVolume_def getScaleVolumeOptions_def mapIndex_def strconv_ParseBool_def
      zeroScaleVolume_def Let_def)

lemma createScaleImage_raw_device_success:
  assumes "VolBackendFs pOpts = []" and "\<not> VolIscsi pOpts"
    and "createScaleImage env pOpts volSzMb w = (None, pOpts', w')"
  shows "\<exists>dev. trace w' = trace w @ [PickNextRawDevice, CreateNSD (VolID pOpts) dev,
                                       CreateFS (VolID pOpts) (VolID pOpts)]"
  using assms
  by (auto simp add: createScaleImage_def pickDevice_def Let_def split: sum.splits option.splits)

subsection \<open>Strategy selection on create\<close>

text \<open>
  The first call of \<open>createScaleImage\<close> tells the strategy: a fileset when
  \<open>VolBackendFs\<close> is not empty, whatever \<open>VolIscsi\<close> is; otherwise a new iSCSI volume
  when \<open>VolIscsi\<close> is set; otherwise a raw device from the scheduler.
\<close>

lemma attachNodes_trace:
  "attachNodes env iphost iqn nodes w = (r, w') \<Longrightarrow> \<exists>evs. trace w' = trace w @ evs"
  using attachNodes_frame by blast

lemma createScaleImage_dispatch:
  assumes "createScaleImage env pOpts volSzMb w = (r, pOpts', w')"
  shows "\<exists>evs. emitted w w' =
           (if VolBackendFs pOpts \<noteq> []
            then CreateFSet (last (strings_Split (VolBackendFs pOpts) CHR ''/'')) (VolID pOpts)
            else if VolIscsi pOpts then IscsiCreateVolume (VolID pOpts) volSzMb
            else PickNextRawDevice) # evs"
proof (cases "VolBackendFs pOpts = []")
  case False
  with assms show ?thesis
    by (auto simp add: createScaleImage_def Let_def emitted_def split: option.splits)
next
  case True
  obtain d p1 w1 where pd: "pickDevice env pOpts volSzMb w = (d, p1, w1)"
    by (cases "pickDevice env pOpts volSzMb w") auto
  have first: "\<exists>evs. trace w1 = trace w @
      (if VolIscsi pOpts then IscsiCreateVolume (VolID pOpts) volSzMb else PickNextRawDevice) # evs"
  proof (cases "VolIscsi pOpts")
    case False
    with pd show ?thesis
      by (auto simp add: pickDevice_def Let_def split: sum.splits)
  next
    case True
    show ?thesis
    proof (cases "iscsiCreateVolume env (VolID pOpts) volSzMb")
      case (Inl err)
      with True pd show ?thesis by (auto simp add: pickDevice_def Let_def)
    next
      case (Inr pbVol)
      obtain a wa where att:
        "attachNodes env (Iphost pbVol) (Iqn pbVol) [''fin27p'', ''fin31p'', ''fin57p'']
           (emit (IscsiCreateVolume (VolID pOpts) volSzMb) w) = (a, wa)"
        by (cases "attachNodes env (Iphost pbVol) (Iqn pbVol) [''fin27p'', ''fin31p'', ''fin57p'']
           (emit (IscsiCreateVolume (VolID pOpts) volSzMb) w)") blast
      from attachNodes_trace [OF att] obtain evs where
        "trace wa = trace w @ IscsiCreateVolume (VolID pOpts) volSzMb # evs"
        by auto
      with True Inr att pd show ?thesis
        by (cases a) (auto simp add: pickDevice_def Let_def simp del: attachNodes.simps)
    qed
  qed
  then obtain evs where tr: "trace w1 = trace w @
      (if VolIscsi pOpts then IscsiCreateVolume (VolID pOpts) volSzMb else PickNextRawDevice) # evs"
    by blast
  from True pd assms tr show ?thesis
    by (cases d) (auto simp add: createScaleImage_def Let_def emitted_def split: option.splits)
qed

subsection \<open>The sample deployment, evaluated\<close>

lemmas sample_defs = okEnv_def noDriverEnv_def nsdFailEnv_def diskFullEnv_def fsBusyEnv_def
  reqPvcA_def reqNilCaps_def reqEmptyCaps_def reqNoName_def reqTwoGiB_def w0_def wA_def volA_def

lemmas eval_defs = CreateVolume_def createNewVolume_def createScaleImage_def pickDevice_def
  persistVolInfo_def os_Create_def encoder_Encode_def getScaleVolumeOptions_def
  strconv_ParseBool_def mapIndex_def zeroScaleVolume_def oneGB_def emit_def
  status_Error_def preparedVolume_def preparedSizeMB_def controllerDir_def
  DeleteVolume_def loadVolInfo_def os_Open_def decoder_Decode_def deleteScaleImage_def
  deleteVolInfo_def os_Remove_def sampleParse_def GetRequiredBytes_def emitted_def Let_def

lemma sample_prepared:
  "preparedVolume okEnv reqPvcA =
     \<lparr>VolName = ''pvc-a'', VolID = ''u-1'', VolSize = 1073741824, VolIscsi = False,
      VolIscsiVid = [], VolBackendFs = []\<rparr>"
  "preparedVolume nsdFailEnv reqPvcA = preparedVolume okEnv reqPvcA"
  "preparedVolume diskFullEnv reqPvcA = preparedVolume okEnv reqPvcA"
  by (simp_all add: eval_defs sample_defs)

lemma sample_provision_ok:
  "createScaleImage okEnv (preparedVolume okEnv reqPvcA) sz (emit NewUUID w0) =
     (None, preparedVolume okEnv reqPvcA,
      w0\<lparr>trace := [NewUUID, PickNextRawDevice, CreateNSD ''u-1'' ''/dev/sdb'',
                     CreateFS ''u-1'' ''u-1'']\<rparr>)"
  "createScaleImage diskFullEnv (preparedVolume diskFullEnv reqPvcA) sz (emit NewUUID w0) =
     (None, preparedVolume okEnv reqPvcA,
      w0\<lparr>trace := [NewUUID, PickNextRawDevice, CreateNSD ''u-1'' ''/dev/sdb'',
                     CreateFS ''u-1'' ''u-1'']\<rparr>)"
  "createScaleImage nsdFailEnv (preparedVolume nsdFailEnv reqPvcA) sz (emit NewUUID w0) =
     (Some (ExternalError ''mmcrnsd failed''), preparedVolume okEnv reqPvcA,
      w0\<lparr>trace := [NewUUID, PickNextRawDevice, CreateNSD ''u-1'' ''/dev/sdb'']\<rparr>)"
  by (simp_all add: eval_defs sample_defs)

lemma sample_persist:
  "fst (persistVolInfo okEnv ''u-1'' (controllerDir okEnv) (preparedVolume okEnv reqPvcA)
     (w0\<lparr>trace := [NewUUID, PickNextRawDevice, CreateNSD ''u-1'' ''/dev/sdb'',
                    CreateFS ''u-1'' ''u-1'']\<rparr>)) = None"
  "fst (persistVolInfo diskFullEnv ''u-1'' (controllerDir diskFullEnv) (preparedVolume okEnv reqPvcA)
     (w0\<lparr>trace := [NewUUID, PickNextRawDevice, CreateNSD ''u-1'' ''/dev/sdb'',
                    CreateFS ''u-1'' ''u-1'']\<rparr>)) =
     Some (Errorf ''scale: encode err: write /plugin/controller/u-1.json: no space left on device'')"
  by (simp_all add: eval_defs sample_defs)

lemma sample_valid:
  "validateControllerServiceRequest okEnv = None"
  "validateControllerServiceRequest nsdFailEnv = None"
  "validateControllerServiceRequest diskFullEnv = None"
  "validateControllerServiceRequest fsBusyEnv = None"
  "Name reqPvcA \<noteq> []" "VolumeCapabilities reqPvcA \<noteq> None"
  "getScaleVolumeByName (scaleVolumes w0) (Name reqPvcA) =
     Inl (Errorf ''volume name pvc-a does not exit in the volumes list'')"
  by (simp_all add: sample_defs)

lemma sample_path:
  "path_Join okEnv a b = a @ ''/'' @ b"
  "controllerDir okEnv = ''/plugin/controller''"
  "Parameters reqPvcA = Map.empty" "CapacityRange reqPvcA = None" "Name reqPvcA = ''pvc-a''"
  "scaleVolumes w0 = []" "trace w0 = []"
  by (simp_all add: controllerDir_def sample_defs)

lemma sample_load:
  "loadVolInfo e ''u-0'' (controllerDir e) zeroScaleVolume wA =
     (fst (loadVolInfo e ''u-0'' (controllerDir e) zeroScaleVolume wA), emit (OsOpen (path_Join e (controllerDir e) (''u-0'' @ ''.json''))) wA)"
  "fst (loadVolInfo okEnv ''u-0'' (controllerDir okEnv) zeroScaleVolume wA) = Inr volA"
  "fst (loadVolInfo fsBusyEnv ''u-0'' (controllerDir fsBusyEnv) zeroScaleVolume wA) = Inr volA"
proof -
  show "loadVolInfo e ''u-0'' (controllerDir e) zeroScaleVolume wA =
     (fst (loadVolInfo e ''u-0'' (controllerDir e) zeroScaleVolume wA), emit (OsOpen (path_Join e (controllerDir e) (''u-0'' @ ''.json''))) wA)"
    by (simp add: loadVolInfo_def os_Open_def Let_def split: option.splits sum.splits)
  have f: "files wA ''/plugin/controller/u-0.json'' =
      Some (sampleRender (marshalScaleVolume volA) @ [CHR 0x0A])"
    by (simp add: wA_def)
  show "fst (loadVolInfo okEnv ''u-0'' (controllerDir okEnv) zeroScaleVolume wA) = Inr volA"
    using f
    by (simp add: loadVolInfo_def os_Open_def decoder_Decode_def sampleParse_def Let_def
        controllerDir_def okEnv_def unmarshal_marshal)
  show "fst (loadVolInfo fsBusyEnv ''u-0'' (controllerDir fsBusyEnv) zeroScaleVolume wA) = Inr volA"
    using f
    by (simp add: loadVolInfo_def os_Open_def decoder_Decode_def sampleParse_def Let_def
        controllerDir_def okEnv_def fsBusyEnv_def unmarshal_marshal)
qed

lemma sample_teardown:
  "deleteScaleImage fsBusyEnv volA w =
     (Some (Errorf ''failed to delete scale fs: mmdelfs failed''), emit (DeleteFS ''u-0'') w)"
  by (simp add: deleteScaleImage_def Let_def fsBusyEnv_def okEnv_def volA_def)

lemma sample_delete_trace:
  "emitted wA (snd (DeleteVolume okEnv \<lparr>VolumeIdReq = ''u-0''\<rparr> wA)) =
     [OsOpen ''/plugin/controller/u-0.json'', DeleteFS ''u-0'', DeleteNSD ''u-0'',
      IscsiDeleteVolume [], OsRemove ''/plugin/controller/u-0.json'', RegistryDelete ''u-0'']"
proof -
  have f: "files wA ''/plugin/controller/u-0.json'' =
      Some (sampleRender (marshalScaleVolume volA) @ [CHR 0x0A])"
    "trace wA = []"
    by (simp_all add: wA_def)
  have v: "VolID volA = ''u-0''" "VolBackendFs volA = []" "VolIscsiVid volA = []"
    by (simp_all add: volA_def)
  show ?thesis
    using f v
    by (simp add: DeleteVolume_def loadVolInfo_def os_Open_def decoder_Decode_def
        sampleParse_def deleteScaleImage_def deleteVolInfo_def os_Remove_def
        emitted_def Let_def okEnv_def unmarshal_marshal)
qed

section \<open>Reuse of an existing volume\<close>




section \<open>Teardown of a volume that is not a fileset\<close>

text \<open>
  Claim C2. For a record with an empty \<open>VolBackendFs\<close> the teardown issues delete-filesystem,
  then delete-NSD, and the claim lets the delete call on the iSCSI layer follow only when
  \<open>VolIscsi\<close> is set. \<open>deleteScaleImage\<close> never reads \<open>VolIscsi\<close>: line 232 calls
  \<open>iscsiOps.DeleteVolume(pOpts.VolIscsiVid)\<close> on every path that reaches it, whereas
  \<open>createScaleImage\<close> creates the iSCSI volume under \<open>if (pOpts.VolIscsi)\<close> only. On the
  raw-device record \<open>volA\<close> (flag false, no iSCSI identifier) the call is issued with the
  empty identifier.
\<close>

theorem deleteScaleImage_raw_device_calls_iscsi_delete:
  "VolBackendFs volA = [] \<and> VolIscsi volA = False \<and>
   deleteScaleImage okEnv volA w0 =
     (None, w0\<lparr>trace := [DeleteFS ''u-0'', DeleteNSD ''u-0'', IscsiDeleteVolume []]\<rparr>)"
  by (simp add: deleteScaleImage_def okEnv_def volA_def w0_def emit_def Let_def)

section \<open>Deleting the metadata of a volume\<close>

text \<open>
  Claim C3. Removing the metadata file of an identifier whose file is already absent is
  meant to succeed, and any other failure of the removal is an error. \<open>os.Remove\<close>
  reports the absent file as a \<open>*PathError\<close>, which the test \<open>err != os.ErrNotExist\<close>
  of line 174 never takes for the sentinel, so \<open>deleteVolInfo\<close> returns an error:
  here for the identifier \<open>u-1\<close> in the empty world.
\<close>

theorem deleteVolInfo_absent_file_fails:
  "files w0 ''/plugin/controller/u-1.json'' = None \<and>
   fst (deleteVolInfo okEnv ''u-1'' ''/plugin/controller'' w0) =
     Some (Errorf ''scale: error removing file: /plugin/controller/u-1.json/remove /plugin/controller/u-1.json: no such file or directory'')"
  by (simp add: deleteVolInfo_def os_Remove_def okEnv_def w0_def emit_def Let_def)

text \<open>The same in every environment and world: an absent file makes the call fail.\<close>

lemma deleteVolInfo_absent_file_general:
  "files w (path_Join env dir (imageName @ ''.json'')) = None \<Longrightarrow>
   \<exists>msg. fst (deleteVolInfo env imageName dir w) = Some (Errorf msg)"
  by (simp add: deleteVolInfo_def os_Remove_def Let_def)

text \<open>Every other failure of the removal is reported as well.\<close>

lemma deleteVolInfo_fault_is_error:
  "files w (path_Join env dir (imageName @ ''.json'')) = Some c \<Longrightarrow>
   osRemoveFault env (path_Join env dir (imageName @ ''.json'')) = Some e \<Longrightarrow>
   \<exists>msg. fst (deleteVolInfo env imageName dir w) = Some (Errorf msg)"
  by (simp add: deleteVolInfo_def os_Remove_def Let_def)

section \<open>Validation of a create request\<close>




section \<open>Failure of provisioning or of persistence on create\<close>

text \<open>
  Claim C5. For every CreateVolume call in which the provisioning step fails, the call
  returns INTERNAL and neither the metadata store nor the registry is modified; when
  provisioning succeeds the record is persisted before it is inserted into the registry, and
  if persistence fails the call returns INTERNAL with the registry unmodified.

  The call reaches provisioning when it passes the checks and no volume has its name;
  \<open>r\<close> is the result of \<open>createScaleImage\<close> on the record built from the request and
  \<open>p\<close> the result of \<open>persistVolInfo\<close> on the record it returns. The order is read
  off the trace: the file is created and written, then the registry is assigned.
\<close>

theorem CreateVolume_persist_before_insert:
  assumes run: "CreateVolume env req w = (res, w')"
    and valid: "validateControllerServiceRequest env = None" "Name req \<noteq> []"
      "VolumeCapabilities req \<noteq> None"
    and fresh: "getScaleVolumeByName (scaleVolumes w) (Name req) = Inl e0"
    and prov: "createScaleImage env (preparedVolume env req) (preparedSizeMB env req)
                 (emit NewUUID w) = (r, vol, w1)"
    and pers: "persistVolInfo env (VolID vol) (controllerDir env) vol w1 = (p, w2)"
  shows "(r \<noteq> None \<longrightarrow>
            (\<exists>msg. res = Inl (Internal, msg)) \<and> files w' = files w \<and>
            scaleVolumes w' = scaleVolumes w \<and> filter isStoreEvent (emitted w w') = []) \<and>
         (r = None \<and> p \<noteq> None \<longrightarrow>
            (\<exists>msg. res = Inl (Internal, msg)) \<and> scaleVolumes w' = scaleVolumes w \<and>
            (filter isStoreEvent (emitted w w') =
               [OsCreate (path_Join env (controllerDir env) (VolID vol @ ''.json''))] \<or>
             filter isStoreEvent (emitted w w') =
               [OsCreate (path_Join env (controllerDir env) (VolID vol @ ''.json'')),
                OsWrite (path_Join env (controllerDir env) (VolID vol @ ''.json''))])) \<and>
         (r = None \<and> p = None \<longrightarrow>
            res = Inr \<lparr>VolumeId = VolID vol, CapacityBytes = VolSize vol,
                       VolumeContext = Parameters req\<rparr> \<and>
            filter isStoreEvent (emitted w w') =
              [OsCreate (path_Join env (controllerDir env) (VolID vol @ ''.json'')),
               OsWrite (path_Join env (controllerDir env) (VolID vol @ ''.json'')),
               RegistryInsert (VolID vol)] \<and>
            files w' = (files w)(path_Join env (controllerDir env) (VolID vol @ ''.json'') \<mapsto>
                          jsonRender env (marshalScaleVolume vol) @ [CHR 0x0A]) \<and>
            scaleVolumes w' = AList.update (VolID vol) vol (scaleVolumes w))"
proof -
  from createScaleImage_frame [OF prov] obtain evs where
    fr: "files w1 = files w" "scaleVolumes w1 = scaleVolumes w"
        "trace w1 = trace w @ NewUUID # evs" "list_all isBackendEvent evs"
        "VolID vol = VolID (preparedVolume env req)"
        "VolSize vol = VolSize (preparedVolume env req)"
    by auto
  from run valid fresh have new: "createNewVolume env req w = (res, w')"
    by (simp add: CreateVolume_def)
  have nostore: "filter isStoreEvent evs = []"
    using fr(4) by (rule filter_store_backend)
  show ?thesis
  proof (cases r)
    case (Some err)
    with new prov fr nostore show ?thesis
      by (auto simp add: createNewVolume_unfold status_Error_def emitted_def)
  next
    case None
    note rNone = this
    show ?thesis
    proof (cases p)
      case (Some err)
      from persistVolInfo_failure [OF pers [unfolded Some]]
      have pf: "scaleVolumes w2 = scaleVolumes w1"
        "trace w2 = trace w1 @ [OsCreate (path_Join env (controllerDir env) (VolID vol @ ''.json''))] \<or>
         trace w2 = trace w1 @ [OsCreate (path_Join env (controllerDir env) (VolID vol @ ''.json'')),
                                OsWrite (path_Join env (controllerDir env) (VolID vol @ ''.json''))]"
        by auto
      from new prov pers rNone Some fr have "res = Inl (status_Error Internal
          (''failed to store volInfo with error: '' @ errorString err))" "w' = w2"
        by (auto simp add: createNewVolume_unfold)
      with pf fr nostore rNone Some show ?thesis
        by (auto simp add: status_Error_def emitted_def)
    next
      case None
      from persistVolInfo_success [OF pers [unfolded None]]
      have ps: "scaleVolumes w2 = scaleVolumes w1"
        "trace w2 = trace w1 @ [OsCreate (path_Join env (controllerDir env) (VolID vol @ ''.json'')),
                                OsWrite (path_Join env (controllerDir env) (VolID vol @ ''.json''))]"
        "files w2 = (files w1)(path_Join env (controllerDir env) (VolID vol @ ''.json'') \<mapsto>
                        jsonRender env (marshalScaleVolume vol) @ [CHR 0x0A])"
        by auto
      from new prov pers rNone None fr have
        "res = Inr \<lparr>VolumeId = VolID vol, CapacityBytes = VolSize vol,
                     VolumeContext = Parameters req\<rparr>"
        "w' = emit (RegistryInsert (VolID vol))
                (w2\<lparr>scaleVolumes := AList.update (VolID vol) vol (scaleVolumes w2)\<rparr>)"
        by (auto simp add: createNewVolume_unfold)
      with ps fr nostore rNone None show ?thesis
        by (auto simp add: emitted_def)
    qed
  qed
qed

theorem CreateVolume_persist_before_insert_witness:
  "(\<exists>msg. fst (CreateVolume nsdFailEnv reqPvcA w0) = Inl (Internal, msg)) \<and>
   files (snd (CreateVolume nsdFailEnv reqPvcA w0)) = files w0 \<and>
   scaleVolumes (snd (CreateVolume nsdFailEnv reqPvcA w0)) = scaleVolumes w0 \<and>
   filter isStoreEvent (emitted w0 (snd (CreateVolume nsdFailEnv reqPvcA w0))) = [] \<and>
   (\<exists>msg. fst (CreateVolume diskFullEnv reqPvcA w0) = Inl (Internal, msg)) \<and>
   scaleVolumes (snd (CreateVolume diskFullEnv reqPvcA w0)) = scaleVolumes w0 \<and>
   fst (CreateVolume okEnv reqPvcA w0) =
     Inr \<lparr>VolumeId = ''u-1'', CapacityBytes = 1073741824, VolumeContext = Map.empty\<rparr> \<and>
   filter isStoreEvent (emitted w0 (snd (CreateVolume okEnv reqPvcA w0))) =
     [OsCreate ''/plugin/controller/u-1.json'', OsWrite ''/plugin/controller/u-1.json'',
      RegistryInsert ''u-1''] \<and>
   scaleVolumes (snd (CreateVolume okEnv reqPvcA w0)) = [(''u-1'', preparedVolume okEnv reqPvcA)]"
proof -
  have run: "CreateVolume e reqPvcA w0 = (fst (CreateVolume e reqPvcA w0), snd (CreateVolume e reqPvcA w0))"
    for e by simp
  have pers: "persistVolInfo e (VolID v) (controllerDir e) v w =
      (fst (persistVolInfo e (VolID v) (controllerDir e) v w),
       snd (persistVolInfo e (VolID v) (controllerDir e) v w))" for e v w by simp
  have id: "VolID (preparedVolume okEnv reqPvcA) = ''u-1''"
    "VolSize (preparedVolume okEnv reqPvcA) = 1073741824"
    by (simp_all add: sample_prepared)
  from CreateVolume_persist_before_insert [OF run sample_valid(2) sample_valid(5,6,7)
      sample_provision_ok(3) pers]
  have one: "(\<exists>msg. fst (CreateVolume nsdFailEnv reqPvcA w0) = Inl (Internal, msg)) \<and>
     files (snd (CreateVolume nsdFailEnv reqPvcA w0)) = files w0 \<and>
     scaleVolumes (snd (CreateVolume nsdFailEnv reqPvcA w0)) = scaleVolumes w0 \<and>
     filter isStoreEvent (emitted w0 (snd (CreateVolume nsdFailEnv reqPvcA w0))) = []"
    by simp
  from CreateVolume_persist_before_insert [OF run sample_valid(3) sample_valid(5,6,7)
      sample_provision_ok(2) pers] sample_persist(2)
  have two: "(\<exists>msg. fst (CreateVolume diskFullEnv reqPvcA w0) = Inl (Internal, msg)) \<and>
     scaleVolumes (snd (CreateVolume diskFullEnv reqPvcA w0)) = scaleVolumes w0"
    by (simp add: id)
  from CreateVolume_persist_before_insert [OF run sample_valid(1) sample_valid(5,6,7)
      sample_provision_ok(1) pers] sample_persist(1)
  have three: "fst (CreateVolume okEnv reqPvcA w0) =
       Inr \<lparr>VolumeId = ''u-1'', CapacityBytes = 1073741824, VolumeContext = Map.empty\<rparr> \<and>
     filter isStoreEvent (emitted w0 (snd (CreateVolume okEnv reqPvcA w0))) =
       [OsCreate ''/plugin/controller/u-1.json'', OsWrite ''/plugin/controller/u-1.json'',
        RegistryInsert ''u-1''] \<and>
     scaleVolumes (snd (CreateVolume okEnv reqPvcA w0)) = [(''u-1'', preparedVolume okEnv reqPvcA)]"
    by (simp add: id sample_path)
  from one two three show ?thesis by blast
qed

section \<open>Failure of the teardown on delete\<close>

text \<open>
  Claim C6. For every DeleteVolume call in which the teardown sequence fails, the call
  returns INTERNAL and the persisted record and the registry entry are unchanged; only when
  the teardown succeeds is the persisted record deleted and then the identifier removed from
  the registry, in that order.

  The first conjunct is the failing teardown. The second says that the files or the registry
  change, or a removal is attempted, only after a teardown that succeeded. The third gives
  the order of the store and registry operations of any call, and the last two tie the
  registry to the result.
\<close>

theorem DeleteVolume_teardown_before_metadata:
  assumes run: "DeleteVolume env req w = (res, w')"
  shows "(validateControllerServiceRequest env = None \<and>
          loadVolInfo env (VolumeIdReq req) (controllerDir env) zeroScaleVolume w = (Inr scaleVol, w1) \<and>
          deleteScaleImage env scaleVol w1 = (Some err, w2) \<longrightarrow>
            (\<exists>msg. res = Inl (Internal, msg)) \<and> files w' = files w \<and>
            scaleVolumes w' = scaleVolumes w) \<and>
         (files w' \<noteq> files w \<or> scaleVolumes w' \<noteq> scaleVolumes w \<or>
          OsRemove (path_Join env (controllerDir env) (VolumeIdReq req @ ''.json''))
            \<in> set (emitted w w') \<or>
          RegistryDelete (VolumeIdReq req) \<in> set (emitted w w') \<longrightarrow>
            (\<exists>v wa wb. validateControllerServiceRequest env = None \<and>
               loadVolInfo env (VolumeIdReq req) (controllerDir env) zeroScaleVolume w = (Inr v, wa) \<and>
               deleteScaleImage env v wa = (None, wb))) \<and>
         (filter isStoreEvent (emitted w w') = [] \<or>
          filter isStoreEvent (emitted w w') =
            [OsOpen (path_Join env (controllerDir env) (VolumeIdReq req @ ''.json''))] \<or>
          filter isStoreEvent (emitted w w') =
            [OsOpen (path_Join env (controllerDir env) (VolumeIdReq req @ ''.json'')),
             OsRemove (path_Join env (controllerDir env) (VolumeIdReq req @ ''.json''))] \<or>
          filter isStoreEvent (emitted w w') =
            [OsOpen (path_Join env (controllerDir env) (VolumeIdReq req @ ''.json'')),
             OsRemove (path_Join env (controllerDir env) (VolumeIdReq req @ ''.json'')),
             RegistryDelete (VolumeIdReq req)]) \<and>
         (RegistryDelete (VolumeIdReq req) \<in> set (emitted w w') \<longrightarrow>
            res = Inr () \<and>
            files w' = (files w)(path_Join env (controllerDir env) (VolumeIdReq req @ ''.json'') := None) \<and>
            scaleVolumes w' = AList.delete (VolumeIdReq req) (scaleVolumes w)) \<and>
         (RegistryDelete (VolumeIdReq req) \<notin> set (emitted w w') \<longrightarrow>
            (\<exists>c msg. res = Inl (c, msg)) \<and> scaleVolumes w' = scaleVolumes w)"
proof (cases "validateControllerServiceRequest env")
  case (Some e)
  with run show ?thesis
    by (auto simp add: DeleteVolume_def status_Error_def)
next
  case None
  note vNone = this
  obtain l wa where load:
    "loadVolInfo env (VolumeIdReq req) (controllerDir env) zeroScaleVolume w = (l, wa)"
    by (cases "loadVolInfo env (VolumeIdReq req) (controllerDir env) zeroScaleVolume w") auto
  from loadVolInfo_frame [OF load] have lf:
    "scaleVolumes wa = scaleVolumes w" "files wa = files w"
    "trace wa = trace w @ [OsOpen (path_Join env (controllerDir env) (VolumeIdReq req @ ''.json''))]"
    by auto
  show ?thesis
  proof (cases l)
    case (Inl e)
    with run vNone load have "res = Inl (status_Error Internal
        (''failed to load volInfo: '' @ errorString e))" "w' = wa"
      by (auto simp add: DeleteVolume_def controllerDir_def Let_def)
    with lf load Inl show ?thesis
      by (auto simp add: status_Error_def emitted_def)
  next
    case (Inr v)
    note lInr = this
    obtain t wb where tear: "deleteScaleImage env v wa = (t, wb)"
      by (cases "deleteScaleImage env v wa") auto
    from deleteScaleImage_frame [OF tear] obtain evs where tf:
      "files wb = files wa" "scaleVolumes wb = scaleVolumes wa"
      "trace wb = trace wa @ evs" "list_all isBackendEvent evs"
      by auto
    have ns: "filter isStoreEvent evs = []"
      using tf(4) by (rule filter_store_backend)
    have nd: "RegistryDelete (VolumeIdReq req) \<notin> set evs"
      "OsRemove (path_Join env (controllerDir env) (VolumeIdReq req @ ''.json'')) \<notin> set evs"
      using backend_no_delete [OF tf(4)] by auto
    show ?thesis
    proof (cases t)
      case (Some e)
      with run vNone load lInr tear have "res = Inl (status_Error Internal
          (''failed to delete scale image: '' @ VolName v @ '' with error: '' @ errorString e))"
        "w' = wb"
        by (auto simp add: DeleteVolume_def controllerDir_def Let_def)
      with lf tf ns nd load lInr tear Some show ?thesis
        by (auto simp add: status_Error_def emitted_def)
    next
      case None
      note tNone = this
      obtain d wc where del:
        "deleteVolInfo env (VolumeIdReq req) (controllerDir env) wb = (d, wc)"
        by (cases "deleteVolInfo env (VolumeIdReq req) (controllerDir env) wb") auto
      show ?thesis
      proof (cases d)
        case (Some e)
        from deleteVolInfo_failure [OF del [unfolded Some]] have df:
          "scaleVolumes wc = scaleVolumes wb" "files wc = files wb"
          "trace wc = trace wb @ [OsRemove (path_Join env (controllerDir env) (VolumeIdReq req @ ''.json''))]"
          by auto
        from run vNone load lInr tear tNone del Some have
          "res = Inl (status_Error Internal
             (''failed to delete volInfo with error: '' @ errorString e))" "w' = wc"
          by (auto simp add: DeleteVolume_def controllerDir_def Let_def)
        with lf tf ns nd df load lInr tear tNone vNone show ?thesis
          by (auto simp add: status_Error_def emitted_def)
      next
        case None
        from deleteVolInfo_success [OF del [unfolded None]] have ds:
          "scaleVolumes wc = scaleVolumes wb"
          "trace wc = trace wb @ [OsRemove (path_Join env (controllerDir env) (VolumeIdReq req @ ''.json''))]"
          "files wc = (files wb)(path_Join env (controllerDir env) (VolumeIdReq req @ ''.json'') := None)"
          by auto
        from run vNone load lInr tear tNone del None have
          "res = Inr ()"
          "w' = emit (RegistryDelete (VolumeIdReq req))
                  (wc\<lparr>scaleVolumes := AList.delete (VolumeIdReq req) (scaleVolumes wc)\<rparr>)"
          by (auto simp add: DeleteVolume_def controllerDir_def Let_def)
        with lf tf ns nd ds load lInr tear tNone vNone show ?thesis
          by (auto simp add: emitted_def)
      qed
    qed
  qed
qed

theorem DeleteVolume_teardown_before_metadata_witness:
  "(\<exists>msg. fst (DeleteVolume fsBusyEnv \<lparr>VolumeIdReq = ''u-0''\<rparr> wA) = Inl (Internal, msg)) \<and>
   files (snd (DeleteVolume fsBusyEnv \<lparr>VolumeIdReq = ''u-0''\<rparr> wA)) = files wA \<and>
   scaleVolumes (snd (DeleteVolume fsBusyEnv \<lparr>VolumeIdReq = ''u-0''\<rparr> wA)) = scaleVolumes wA \<and>
   RegistryDelete ''u-0'' \<in> set (emitted wA (snd (DeleteVolume okEnv \<lparr>VolumeIdReq = ''u-0''\<rparr> wA))) \<and>
   fst (DeleteVolume okEnv \<lparr>VolumeIdReq = ''u-0''\<rparr> wA) = Inr () \<and>
   files (snd (DeleteVolume okEnv \<lparr>VolumeIdReq = ''u-0''\<rparr> wA)) ''/plugin/controller/u-0.json'' = None \<and>
   scaleVolumes (snd (DeleteVolume okEnv \<lparr>VolumeIdReq = ''u-0''\<rparr> wA)) = []"
proof -
  have run: "DeleteVolume e r wA = (fst (DeleteVolume e r wA), snd (DeleteVolume e r wA))"
    for e r by simp
  have pre: "validateControllerServiceRequest fsBusyEnv = None \<and>
      loadVolInfo fsBusyEnv (VolumeIdReq \<lparr>VolumeIdReq = ''u-0''\<rparr>) (controllerDir fsBusyEnv)
        zeroScaleVolume wA =
        (Inr volA, emit (OsOpen (path_Join fsBusyEnv (controllerDir fsBusyEnv) (''u-0'' @ ''.json''))) wA) \<and>
      deleteScaleImage fsBusyEnv volA
        (emit (OsOpen (path_Join fsBusyEnv (controllerDir fsBusyEnv) (''u-0'' @ ''.json''))) wA) =
        (Some (Errorf ''failed to delete scale fs: mmdelfs failed''),
         emit (DeleteFS ''u-0'')
           (emit (OsOpen (path_Join fsBusyEnv (controllerDir fsBusyEnv) (''u-0'' @ ''.json''))) wA))"
    using sample_load(1) [of fsBusyEnv] sample_load(3) sample_teardown sample_valid(4)
    by simp
  from DeleteVolume_teardown_before_metadata [OF run, THEN conjunct1, rule_format, OF pre]
  have one: "(\<exists>msg. fst (DeleteVolume fsBusyEnv \<lparr>VolumeIdReq = ''u-0''\<rparr> wA) = Inl (Internal, msg)) \<and>
     files (snd (DeleteVolume fsBusyEnv \<lparr>VolumeIdReq = ''u-0''\<rparr> wA)) = files wA \<and>
     scaleVolumes (snd (DeleteVolume fsBusyEnv \<lparr>VolumeIdReq = ''u-0''\<rparr> wA)) = scaleVolumes wA" .
  have ev: "RegistryDelete ''u-0'' \<in>
      set (emitted wA (snd (DeleteVolume okEnv \<lparr>VolumeIdReq = ''u-0''\<rparr> wA)))"
    by (simp add: sample_delete_trace)
  from DeleteVolume_teardown_before_metadata [OF run, of okEnv "\<lparr>VolumeIdReq = ''u-0''\<rparr>"] ev
  have two: "fst (DeleteVolume okEnv \<lparr>VolumeIdReq = ''u-0''\<rparr> wA) = Inr () \<and>
     files (snd (DeleteVolume okEnv \<lparr>VolumeIdReq = ''u-0''\<rparr> wA)) ''/plugin/controller/u-0.json'' = None \<and>
     scaleVolumes (snd (DeleteVolume okEnv \<lparr>VolumeIdReq = ''u-0''\<rparr> wA)) = []"
    by (simp add: sample_path AList.delete_eq wA_def)
  from one ev two show ?thesis by blast
qed

section \<open>Strategy dispatch on delete\<close>

text \<open>
  Claim C7. Every pair of \<open>VolBackendFs\<close> and \<open>VolIscsi\<close> selects exactly one of three
  strategies (fileset if and only if the path is not empty, network block device if the path
  is empty and the flag is set, raw device otherwise), and the delete path dispatches by the
  same rule from the persisted record. On create this is \<open>createScaleImage_dispatch\<close>.
  On delete it fails: \<open>deleteScaleImage\<close> tests \<open>VolBackendFs\<close> only, its result and
  its calls do not depend on \<open>VolIscsi\<close>, so a raw-device record and a
  network-block-device record are torn down by the same sequence.
\<close>

theorem deleteScaleImage_ignores_VolIscsi:
  "deleteScaleImage env (pOpts\<lparr>VolIscsi := b\<rparr>) w = deleteScaleImage env pOpts w"
  by (simp add: deleteScaleImage_def Let_def split: option.splits)

section \<open>Size of a new volume\<close>

text \<open>
  Claim C8. For every CreateVolume request with a fresh name, the size of the created volume
  is the required bytes of the capacity range when a range is supplied, and exactly
  1073741824 bytes (1 GiB) when none is given; in particular the request of scenario 1
  (name \<open>pvc-a\<close>, no capacity range, so that the capacity getter reads 0, and no parameters)
  takes the raw-device strategy and has size 1073741824.

  The size is the one returned and the one of the record registered under the new
  identifier. A range that is supplied with required bytes 0 gives size 0, by the first part.
  The raw-device strategy is read off the calls: the raw device scheduler, then the NSD, then
  the filesystem, with no fileset and no iSCSI call.
\<close>

theorem CreateVolume_fresh_name_size:
  assumes fresh: "getScaleVolumeByName (scaleVolumes w) (Name req) = Inl e0"
    and run: "CreateVolume env req w = (Inr vol, w')"
  shows "CapacityBytes vol =
           (case CapacityRange req of None \<Rightarrow> 1073741824 | Some r \<Rightarrow> RequiredBytes r) \<and>
         (\<exists>rec. map_of (scaleVolumes w') (VolumeId vol) = Some rec \<and>
                VolSize rec = CapacityBytes vol) \<and>
         (CapacityRange req = None \<and> Parameters req = Map.empty \<longrightarrow>
            CapacityBytes vol = 1073741824 \<and>
            (\<exists>dev. emitted w w' =
               [NewUUID, PickNextRawDevice, CreateNSD (VolumeId vol) dev,
                CreateFS (VolumeId vol) (VolumeId vol),
                OsCreate (path_Join env (controllerDir env) (VolumeId vol @ ''.json'')),
                OsWrite (path_Join env (controllerDir env) (VolumeId vol @ ''.json'')),
                RegistryInsert (VolumeId vol)]))"
proof -
  from run fresh have new: "createNewVolume env req w = (Inr vol, w')"
    by (auto simp add: CreateVolume_def split: option.splits if_splits)
  obtain r v1 w1 where prov:
    "createScaleImage env (preparedVolume env req) (preparedSizeMB env req) (emit NewUUID w) = (r, v1, w1)"
    by (cases "createScaleImage env (preparedVolume env req) (preparedSizeMB env req) (emit NewUUID w)")
      auto
  from new prov have rNone: "r = None"
    by (cases r) (auto simp add: createNewVolume_unfold)
  obtain p w2 where pers:
    "persistVolInfo env (VolID (preparedVolume env req)) (controllerDir env) v1 w1 = (p, w2)"
    by (cases "persistVolInfo env (VolID (preparedVolume env req)) (controllerDir env) v1 w1") auto
  from new prov rNone pers have pNone: "p = None"
    by (cases p) (auto simp add: createNewVolume_unfold)
  from new prov rNone pers pNone have out:
    "vol = \<lparr>VolumeId = VolID (preparedVolume env req),
            CapacityBytes = VolSize (preparedVolume env req),
            VolumeContext = Parameters req\<rparr>"
    "w' = emit (RegistryInsert (VolID (preparedVolume env req)))
            (w2\<lparr>scaleVolumes := AList.update (VolID (preparedVolume env req)) v1 (scaleVolumes w2)\<rparr>)"
    by (auto simp add: createNewVolume_unfold)
  from createScaleImage_frame [OF prov] have fr:
    "VolSize v1 = VolSize (preparedVolume env req)"
    by auto
  from persistVolInfo_success [OF pers [unfolded pNone]] have ps:
    "trace w2 = trace w1 @
       [OsCreate (path_Join env (controllerDir env) (VolID (preparedVolume env req) @ ''.json'')),
        OsWrite (path_Join env (controllerDir env) (VolID (preparedVolume env req) @ ''.json''))]"
    by auto
  have size: "CapacityBytes vol =
      (case CapacityRange req of None \<Rightarrow> 1073741824 | Some r \<Rightarrow> RequiredBytes r)"
    using out(1) by (simp add: preparedVolume_size)
  have stored: "\<exists>rec. map_of (scaleVolumes w') (VolumeId vol) = Some rec \<and>
      VolSize rec = CapacityBytes vol"
    using out fr by (simp add: update_conv')
  have scenario: "CapacityBytes vol = 1073741824 \<and>
      (\<exists>dev. emitted w w' =
         [NewUUID, PickNextRawDevice, CreateNSD (VolumeId vol) dev,
          CreateFS (VolumeId vol) (VolumeId vol),
          OsCreate (path_Join env (controllerDir env) (VolumeId vol @ ''.json'')),
          OsWrite (path_Join env (controllerDir env) (VolumeId vol @ ''.json'')),
          RegistryInsert (VolumeId vol)])"
    if none: "CapacityRange req = None" and nopar: "Parameters req = Map.empty"
  proof -
    from preparedVolume_no_parameters [OF nopar, of env] have raw:
      "VolBackendFs (preparedVolume env req) = []" "\<not> VolIscsi (preparedVolume env req)"
      by auto
    from createScaleImage_raw_device_success [OF raw prov [unfolded rNone]]
    obtain dev where tr: "trace w1 = trace (emit NewUUID w) @
        [PickNextRawDevice, CreateNSD (VolID (preparedVolume env req)) dev,
         CreateFS (VolID (preparedVolume env req)) (VolID (preparedVolume env req))]"
      by auto
    from size none have "CapacityBytes vol = 1073741824" by simp
    moreover from tr ps out have "emitted w w' =
         [NewUUID, PickNextRawDevice, CreateNSD (VolumeId vol) dev,
          CreateFS (VolumeId vol) (VolumeId vol),
          OsCreate (path_Join env (controllerDir env) (VolumeId vol @ ''.json'')),
          OsWrite (path_Join env (controllerDir env) (VolumeId vol @ ''.json'')),
          RegistryInsert (VolumeId vol)]"
      by (simp add: emitted_def)
    ultimately show ?thesis by blast
  qed
  from size stored scenario show ?thesis by blast
qed

theorem CreateVolume_fresh_name_size_witness:
  "getScaleVolumeByName (scaleVolumes w0) (Name reqPvcA) =
     Inl (Errorf ''volume name pvc-a does not exit in the volumes list'') \<and>
   CapacityRange reqPvcA = None \<and> Parameters reqPvcA = Map.empty \<and>
   CreateVolume okEnv reqPvcA w0 =
     (Inr \<lparr>VolumeId = ''u-1'', CapacityBytes = 1073741824, VolumeContext = Map.empty\<rparr>,
      snd (CreateVolume okEnv reqPvcA w0)) \<and>
   (\<exists>dev. emitted w0 (snd (CreateVolume okEnv reqPvcA w0)) =
      [NewUUID, PickNextRawDevice, CreateNSD ''u-1'' dev, CreateFS ''u-1'' ''u-1'',
       OsCreate ''/plugin/controller/u-1.json'', OsWrite ''/plugin/controller/u-1.json'',
       RegistryInsert ''u-1''])"
proof -
  have run: "CreateVolume okEnv reqPvcA w0 =
     (Inr \<lparr>VolumeId = ''u-1'', CapacityBytes = 1073741824, VolumeContext = Map.empty\<rparr>,
      snd (CreateVolume okEnv reqPvcA w0))"
    by (simp add: prod_eq_iff eval_defs sample_defs)
  from CreateVolume_fresh_name_size [OF sample_valid(7) run] sample_path(3,4)
  have "\<exists>dev. emitted w0 (snd (CreateVolume okEnv reqPvcA w0)) =
      [NewUUID, PickNextRawDevice, CreateNSD ''u-1'' dev, CreateFS ''u-1'' ''u-1'',
       OsCreate ''/plugin/controller/u-1.json'', OsWrite ''/plugin/controller/u-1.json'',
       RegistryInsert ''u-1'']"
    by (simp add: sample_path)
  with sample_valid(7) sample_path(3,4) run show ?thesis by blast
qed

section \<open>Round trip through the metadata store\<close>



section \<open>The synthesized volume name\<close>

text \<open>
  Claim C10. In CreateVolume the branch of line 89 that synthesizes the name
  \<open>dynamic_pvc_\<close> followed by the unique identifier is unreachable: every execution that
  reaches the generation of the identifier (the event \<open>NewUUID\<close>) has a request name that
  is not empty, so the record is named by the request.
\<close>

theorem CreateVolume_synthesized_name_unreachable:
  assumes "CreateVolume env req w = (res, w')"
    and "NewUUID \<in> set (emitted w w')"
  shows "length (Name req) \<noteq> 0 \<and> VolName (preparedVolume env req) = Name req"
  using assms
  by (auto simp add: CreateVolume_def preparedVolume_def Let_def
      split: option.splits if_splits sum.splits)

theorem CreateVolume_synthesized_name_unreachable_witness:
  "NewUUID \<in> set (emitted w0 (snd (CreateVolume okEnv reqPvcA w0))) \<and>
   length (Name reqPvcA) \<noteq> 0 \<and> VolName (preparedVolume okEnv reqPvcA) = ''pvc-a''"
proof -
  have run: "CreateVolume okEnv reqPvcA w0 =
      (fst (CreateVolume okEnv reqPvcA w0), snd (CreateVolume okEnv reqPvcA w0))"
    by simp
  have ev: "NewUUID \<in> set (emitted w0 (snd (CreateVolume okEnv reqPvcA w0)))"
    by (simp add: eval_defs sample_defs)
  from CreateVolume_synthesized_name_unreachable [OF run ev] ev sample_path(5)
  show ?thesis by simp
qed

end
